theory Spec2Isabelle
  imports Complex_Main "HOL-Library.Sublist"
begin

section \<open>JavaScript numbers\<close>

text \<open>
  The calculator computes with JavaScript numbers. A number is modelled as an exact
  rational or one of the three non-finite values, so that a division by zero yields
  \<open>Infinity\<close> or \<open>NaN\<close> and flows on through the arithmetic as it does in the
  program, and so that every comparison with \<open>NaN\<close> is false. Rounding to 53 bits,
  overflow of finite values and the sign of zero are not modelled: finite arithmetic is
  exact and a zero divisor counts as \<open>+0\<close>.
\<close>

datatype num = Fin rat | PInf | NInf | NaN

instantiation num :: plus
begin

fun plus_num :: "num \<Rightarrow> num \<Rightarrow> num" where
  "plus_num (Fin a) (Fin b) = Fin (a + b)"
| "plus_num NaN y = NaN"
| "plus_num x NaN = NaN"
| "plus_num PInf NInf = NaN"
| "plus_num NInf PInf = NaN"
| "plus_num PInf y = PInf"
| "plus_num NInf y = NInf"
| "plus_num x PInf = PInf"
| "plus_num x NInf = NInf"

instance ..

end

instantiation num :: uminus
begin

fun uminus_num :: "num \<Rightarrow> num" where
  "uminus_num (Fin a) = Fin (- a)"
| "uminus_num PInf = NInf"
| "uminus_num NInf = PInf"
| "uminus_num NaN = NaN"

instance ..

end

instantiation num :: minus
begin

definition minus_num :: "num \<Rightarrow> num \<Rightarrow> num" where
  "minus_num x y = x + (- y)"

instance ..

end

instantiation num :: times
begin

fun times_num :: "num \<Rightarrow> num \<Rightarrow> num" where
  "times_num (Fin a) (Fin b) = Fin (a * b)"
| "times_num NaN y = NaN"
| "times_num x NaN = NaN"
| "times_num (Fin a) PInf = (if a = 0 then NaN else if 0 < a then PInf else NInf)"
| "times_num (Fin a) NInf = (if a = 0 then NaN else if 0 < a then NInf else PInf)"
| "times_num PInf (Fin b) = (if b = 0 then NaN else if 0 < b then PInf else NInf)"
| "times_num NInf (Fin b) = (if b = 0 then NaN else if 0 < b then NInf else PInf)"
| "times_num PInf PInf = PInf"
| "times_num PInf NInf = NInf"
| "times_num NInf PInf = NInf"
| "times_num NInf NInf = PInf"

instance ..

end

instantiation num :: inverse
begin

fun divide_num :: "num \<Rightarrow> num \<Rightarrow> num" where
  "divide_num (Fin a) (Fin b) =
     (if b = 0 then (if a = 0 then NaN else if 0 < a then PInf else NInf)
      else Fin (a / b))"
| "divide_num NaN y = NaN"
| "divide_num x NaN = NaN"
| "divide_num (Fin a) PInf = Fin 0"
| "divide_num (Fin a) NInf = Fin 0"
| "divide_num PInf (Fin b) = (if 0 \<le> b then PInf else NInf)"
| "divide_num NInf (Fin b) = (if 0 \<le> b then NInf else PInf)"
| "divide_num PInf y = NaN"
| "divide_num NInf y = NaN"

definition inverse_num :: "num \<Rightarrow> num" where
  "inverse_num x = divide (Fin 1) (x::num)"

instance ..

end

instantiation num :: ord
begin

fun less_eq_num :: "num \<Rightarrow> num \<Rightarrow> bool" where
  "less_eq_num (Fin a) (Fin b) = (a \<le> b)"
| "less_eq_num NaN y = False"
| "less_eq_num x NaN = False"
| "less_eq_num NInf y = True"
| "less_eq_num x PInf = True"
| "less_eq_num PInf y = False"
| "less_eq_num x NInf = False"

fun less_num :: "num \<Rightarrow> num \<Rightarrow> bool" where
  "less_num (Fin a) (Fin b) = (a < b)"
| "less_num NaN y = False"
| "less_num x NaN = False"
| "less_num PInf y = False"
| "less_num x NInf = False"
| "less_num NInf y = True"
| "less_num x PInf = True"

instance ..

end

text \<open>\<open>Math.min\<close> of two numbers: \<open>NaN\<close> if either is, otherwise the lesser.\<close>

fun Math_min :: "num \<Rightarrow> num \<Rightarrow> num" where
  "Math_min NaN y = NaN"
| "Math_min x NaN = NaN"
| "Math_min x y = (if x \<le> y then x else y)"

text \<open>
  \<open>Math.pow\<close> with a whole, non-negative exponent: any base to the power 0 is 1
  (also \<open>NaN\<close>), otherwise the repeated product.
\<close>

fun Math_pow :: "num \<Rightarrow> nat \<Rightarrow> num" where
  "Math_pow x 0 = Fin 1"
| "Math_pow (Fin a) n = Fin (a ^ n)"
| "Math_pow PInf n = PInf"
| "Math_pow NInf n = (if even n then PInf else NInf)"
| "Math_pow NaN n = NaN"

section \<open>Filing status and tax rates\<close>

text \<open>The \<open>FilingStatus\<close> object: two string constants.\<close>

definition SINGLE :: string where
  "SINGLE = ''single''"

definition MARRIED_FILING_JOINTLY :: string where
  "MARRIED_FILING_JOINTLY = ''married''"

definition getFederalTaxRate :: "num \<Rightarrow> string \<Rightarrow> num" where
  "getFederalTaxRate income filingStatus =
     (if filingStatus = SINGLE then
        (if income \<le> Fin 11000 then Fin 0.10
         else if income \<le> Fin 44725 then Fin 0.12
         else if income \<le> Fin 95375 then Fin 0.22
         else if income \<le> Fin 182050 then Fin 0.24
         else if income \<le> Fin 231250 then Fin 0.32
         else if income \<le> Fin 578125 then Fin 0.35
         else Fin 0.37)
      else
        (if income \<le> Fin 22000 then Fin 0.10
         else if income \<le> Fin 89450 then Fin 0.12
         else if income \<le> Fin 190750 then Fin 0.22
         else if income \<le> Fin 364200 then Fin 0.24
         else if income \<le> Fin 462500 then Fin 0.32
         else if income \<le> Fin 693750 then Fin 0.35
         else Fin 0.37))"

record tax_rates =
  federal :: num
  state :: num
  property :: num

definition getTaxRates :: "num \<Rightarrow> string \<Rightarrow> num \<Rightarrow> tax_rates" where
  "getTaxRates income filingStatus propertyTaxRate =
     (let federalRate = getFederalTaxRate income filingStatus
      in \<lparr> federal = federalRate, state = Fin 0.0, property = propertyTaxRate \<rparr>)"

section \<open>Validation\<close>

text \<open>
  The warnings are JavaScript strings; three of them interpolate a number. The
  conversion of a number to its decimal string belongs to the language runtime and is
  the parameter \<open>toStr\<close>. Each \<open>push\<close> appends to the array built so far.
\<close>

definition validateInputs ::
  "(num \<Rightarrow> string) \<Rightarrow> num \<Rightarrow> num \<Rightarrow> num \<Rightarrow> num \<Rightarrow> num \<Rightarrow> string list" where
  "validateInputs toStr housePrice userIncome mortgageRate homeAppreciation downPayment =
     (let warnings = [];
          warnings = (if housePrice \<le> Fin 0
            then warnings @ [''House price must be positive''] else warnings);
          warnings = (if userIncome \<le> Fin 0
            then warnings @ [''User income must be positive''] else warnings);
          warnings = (if mortgageRate < Fin 0 \<or> mortgageRate > Fin 20
            then warnings @ [''Mortgage rate seems unrealistic ('' @ toStr mortgageRate @ ''%)'']
            else warnings);
          warnings = (if homeAppreciation < Fin (- 10) \<or> homeAppreciation > Fin 20
            then warnings @
              [''Home appreciation rate seems extreme ('' @ toStr homeAppreciation @ ''%)'']
            else warnings);
          warnings = (if downPayment < Fin 3 \<or> downPayment > Fin 50
            then warnings @
              [''Down payment percentage seems unusual ('' @ toStr downPayment @ ''%)'']
            else warnings);
          warnings = (if housePrice > userIncome * Fin 10
            then warnings @
              [''House price is more than 10x annual income - may not be affordable'']
            else warnings)
      in warnings)"

section \<open>Mortgage payment\<close>

text \<open>
  The term is a whole number of years; an omitted third argument is 30. The number of
  payments is then a natural number, and \<open>Math.pow\<close> is taken at it.
\<close>

definition calculateMonthlyMortgagePayment :: "num \<Rightarrow> num \<Rightarrow> nat option \<Rightarrow> num" where
  "calculateMonthlyMortgagePayment loanAmount annualRate yearsArg =
     (let years = (case yearsArg of None \<Rightarrow> 30 | Some y \<Rightarrow> y);
          monthlyRate = annualRate / Fin 12;
          numPayments = years * 12
      in if monthlyRate = Fin 0 then loanAmount / Fin (of_nat numPayments)
         else loanAmount * (monthlyRate * Math_pow (Fin 1 + monthlyRate) numPayments) /
              (Math_pow (Fin 1 + monthlyRate) numPayments - Fin 1))"

section \<open>Net cost of ownership\<close>

text \<open>
  The parameter object: five properties that the caller always gives and seven that may
  be absent (\<open>None\<close>), for which the destructuring pattern supplies a default.
  The function passes the number-to-string conversion \<open>toStr\<close> on to the
  validation and uses it nowhere else.
\<close>

record params =
  housePrice :: num
  userIncome :: num
  mortgageRate :: num
  homeAppreciation :: num
  filingStatus :: string
  insurancePercent :: "num option"
  downPaymentPercent :: "num option"
  closingCostsPercent :: "num option"
  opportunityCostRate :: "num option"
  mortgageYears :: "nat option"
  maintenanceCostRate :: "num option"
  propertyTaxRate :: "num option"

record net_cost_breakdown =
  annualMortgagePayment :: num
  propertyTax :: num
  insurance :: num
  maintenance :: num
  opportunityCostUpfront :: num
  opportunityCostMortgagePayments :: num
  totalOpportunityCost :: num
  homeAppreciationValue :: num
  mortgageInterestTaxSavings :: num
  propertyTaxTaxSavings :: num
  downPayment :: num
  closingCosts :: num
  totalUpfrontCosts :: num
  monthlyMortgagePayment :: num
  federalTaxRate :: num
  stateTaxRate :: num

record net_cost_result =
  totalNetCost :: num
  monthlyPayment :: num
  frontEndRatio :: num
  isAffordable :: bool
  totalTaxRate :: num
  breakdown :: net_cost_breakdown
  warnings :: "string list"

definition calculateHomeNetCost :: "(num \<Rightarrow> string) \<Rightarrow> params \<Rightarrow> net_cost_result" where
  "calculateHomeNetCost toStr ps =
     (let housePrice = housePrice ps;
          userIncome = userIncome ps;
          mortgageRate = mortgageRate ps;
          homeAppreciation = homeAppreciation ps;
          filingStatus = filingStatus ps;
          insurancePercent = (case insurancePercent ps of None \<Rightarrow> Fin 0.005 | Some v \<Rightarrow> v);
          downPaymentPercent = (case downPaymentPercent ps of None \<Rightarrow> Fin 0.20 | Some v \<Rightarrow> v);
          closingCostsPercent = (case closingCostsPercent ps of None \<Rightarrow> Fin 0.03 | Some v \<Rightarrow> v);
          opportunityCostRate = (case opportunityCostRate ps of None \<Rightarrow> Fin 0.08 | Some v \<Rightarrow> v);
          mortgageYears = (case mortgageYears ps of None \<Rightarrow> 30 | Some v \<Rightarrow> v);
          maintenanceCostRate = (case maintenanceCostRate ps of None \<Rightarrow> Fin 0.01 | Some v \<Rightarrow> v);
          propertyTaxRate = (case propertyTaxRate ps of None \<Rightarrow> Fin 0.01 | Some v \<Rightarrow> v);

          mortgageRateDecimal = mortgageRate / Fin 100;
          homeAppreciationDecimal = homeAppreciation / Fin 100;
          downPaymentDecimal = downPaymentPercent / Fin 100;
          opportunityCostDecimal = opportunityCostRate / Fin 100;
          maintenanceCostRateDecimal = maintenanceCostRate / Fin 100;
          propertyTaxRateDecimal = propertyTaxRate / Fin 100;

          warnings = validateInputs toStr housePrice userIncome mortgageRate homeAppreciation
            downPaymentPercent;
          taxRates = getTaxRates userIncome filingStatus propertyTaxRateDecimal;
          totalTaxRate = federal taxRates + state taxRates;

          downPayment = housePrice * downPaymentDecimal;
          closingCosts = housePrice * closingCostsPercent;
          totalUpfrontCosts = downPayment + closingCosts;
          opportunityCostUpfront = totalUpfrontCosts * opportunityCostDecimal;

          loanAmount = housePrice - downPayment;
          monthlyMortgagePayment =
            calculateMonthlyMortgagePayment loanAmount mortgageRateDecimal (Some mortgageYears);
          annualMortgagePayment = monthlyMortgagePayment * Fin 12;
          opportunityCostMortgagePayments = annualMortgagePayment * opportunityCostDecimal;
          totalOpportunityCost = opportunityCostUpfront + opportunityCostMortgagePayments;

          propertyTax = housePrice * property taxRates;
          propertyTaxDeduction = Math_min propertyTax (Fin 10000);
          insurance = housePrice * insurancePercent;
          maintenance = housePrice * maintenanceCostRateDecimal;

          mortgagePrincipalForDeduction = Math_min loanAmount (Fin 750000);
          annualMortgageInterest = mortgagePrincipalForDeduction * mortgageRateDecimal;
          mortgageInterestTaxSavings = annualMortgageInterest * totalTaxRate;
          propertyTaxTaxSavings = propertyTaxDeduction * totalTaxRate;

          homeAppreciationValue = housePrice * homeAppreciationDecimal;

          totalAnnualCosts =
            annualMortgagePayment + propertyTax + insurance + maintenance + totalOpportunityCost;
          totalAnnualBenefits =
            homeAppreciationValue + mortgageInterestTaxSavings + propertyTaxTaxSavings;
          totalNetCost = totalAnnualCosts - totalAnnualBenefits;

          monthlyPayment =
            (annualMortgagePayment + propertyTax + insurance + maintenance) / Fin 12;
          monthlyIncome = userIncome / Fin 12;
          frontEndRatio = monthlyPayment / monthlyIncome;
          isAffordable = (frontEndRatio \<le> Fin 0.28)
      in \<lparr> totalNetCost = totalNetCost,
           monthlyPayment = monthlyPayment,
           frontEndRatio = frontEndRatio,
           isAffordable = isAffordable,
           totalTaxRate = totalTaxRate,
           breakdown = \<lparr>
             annualMortgagePayment = annualMortgagePayment,
             propertyTax = propertyTax,
             insurance = insurance,
             maintenance = maintenance,
             opportunityCostUpfront = opportunityCostUpfront,
             opportunityCostMortgagePayments = opportunityCostMortgagePayments,
             totalOpportunityCost = totalOpportunityCost,
             homeAppreciationValue = homeAppreciationValue,
             mortgageInterestTaxSavings = mortgageInterestTaxSavings,
             propertyTaxTaxSavings = propertyTaxTaxSavings,
             downPayment = downPayment,
             closingCosts = closingCosts,
             totalUpfrontCosts = totalUpfrontCosts,
             monthlyMortgagePayment = monthlyMortgagePayment,
             federalTaxRate = federal taxRates,
             stateTaxRate = state taxRates \<rparr>,
           warnings = warnings \<rparr>)"

section \<open>Definitions used to state the properties\<close>

subsection \<open>Bracket tables\<close>

text \<open>
  The thresholds and rates that \<open>getFederalTaxRate\<close> compares against, written as
  the two ordered tables of (upper bound, rate) pairs, and the lookup rule in words:
  the rate of the first bracket whose upper bound is at least the income, the top rate
  when there is none.
\<close>

definition single_brackets :: "(rat \<times> rat) list" where
  "single_brackets =
     [(11000, 0.10), (44725, 0.12), (95375, 0.22), (182050, 0.24), (231250, 0.32),
      (578125, 0.35)]"

definition married_brackets :: "(rat \<times> rat) list" where
  "married_brackets =
     [(22000, 0.10), (89450, 0.12), (190750, 0.22), (364200, 0.24), (462500, 0.32),
      (693750, 0.35)]"

fun bracket_rate :: "(rat \<times> rat) list \<Rightarrow> num \<Rightarrow> num" where
  "bracket_rate [] income = Fin 0.37"
| "bracket_rate ((bound, rate) # rest) income =
     (if income \<le> Fin bound then Fin rate else bracket_rate rest income)"

subsection \<open>The six checks of the validation\<close>





subsection \<open>The two deductions\<close>

text \<open>
  \<open>propertyTaxDeduction\<close> and \<open>annualMortgageInterest\<close> are local to
  \<open>calculateHomeNetCost\<close>; the result shows them only multiplied by the tax rate.
  Here they are as functions of what they are computed from: the house price and the
  property tax rate as given by the caller (in percent), and the loan amount and the
  mortgage rate as given by the caller (in percent).
\<close>

definition propertyTaxDeduction_at :: "num \<Rightarrow> num \<Rightarrow> num" where
  "propertyTaxDeduction_at hp ptr = Math_min (hp * (ptr / Fin 100)) (Fin 10000)"

definition annualMortgageInterest_at :: "num \<Rightarrow> num \<Rightarrow> num" where
  "annualMortgageInterest_at loanAmount mr =
     Math_min loanAmount (Fin 750000) * (mr / Fin 100)"

subsection \<open>The values bound by the destructuring pattern\<close>








subsection \<open>Warnings of the same check\<close>


subsection \<open>Three parameter objects\<close>

text \<open>
  The example of the specification with every optional property left out; the same
  example with every optional property given in percent; and the edge case of the
  specification, a house of 1000000 on an income of 50000, with the properties that the
  form handler passes.
\<close>

definition defaults_example :: params where
  "defaults_example =
     \<lparr> housePrice = Fin 500000, userIncome = Fin 120000, mortgageRate = Fin 6.5,
       homeAppreciation = Fin 3, filingStatus = ''single'', insurancePercent = None,
       downPaymentPercent = None, closingCostsPercent = None, opportunityCostRate = None,
       mortgageYears = None, maintenanceCostRate = None, propertyTaxRate = None \<rparr>"

definition percent_example :: params where
  "percent_example =
     \<lparr> housePrice = Fin 500000, userIncome = Fin 120000, mortgageRate = Fin 6.5,
       homeAppreciation = Fin 3, filingStatus = ''single'', insurancePercent = Some (Fin 0.5),
       downPaymentPercent = Some (Fin 20), closingCostsPercent = Some (Fin 3),
       opportunityCostRate = Some (Fin 8), mortgageYears = Some 30,
       maintenanceCostRate = Some (Fin 1), propertyTaxRate = Some (Fin 1) \<rparr>"


section \<open>Arithmetic of the number model\<close>

lemma Math_pow_Fin: "Math_pow (Fin a) n = Fin (a ^ n)"
  by (cases n) simp_all

lemma Math_min_Fin: "Math_min (Fin a) (Fin b) = Fin (min a b)"
  by (simp add: min_def)

lemma num_minus_Fin: "Fin a - Fin b = Fin (a - b)"
  by (simp add: minus_num_def)

lemma num_mult_commute: "x * y = y * (x::num)"
  by (cases x; cases y) (simp_all add: mult.commute)

lemma num_add_zero: "x + Fin 0 = (x::num)"
  by (cases x) simp_all

section \<open>The federal rate lookup\<close>

lemma getFederalTaxRate_table:
  "getFederalTaxRate inc status =
     bracket_rate (if status = SINGLE then single_brackets else married_brackets) inc"
  by (simp add: getFederalTaxRate_def single_brackets_def married_brackets_def)

lemma getFederalTaxRate_mono:
  "inc \<le> inc' \<Longrightarrow> getFederalTaxRate inc status \<le> getFederalTaxRate inc' status"
  by (cases inc; cases inc') (auto simp add: getFederalTaxRate_def)

text \<open>
  Claim C5. The federal rate is a step function of the income: it is the rate of the
  first bracket of the status's table whose upper bound is at least the income, and the
  top rate 37% above the last bound; for a fixed filing status it does not decrease when
  the income grows; both tables carry the rates 10, 12, 22, 24, 32 and 35% under a top
  rate of 37%, with ascending bounds; and every bound of the married table is at least
  the bound of the single table at the same position.
\<close>

theorem federal_rate_step_function:
  "getFederalTaxRate inc status =
     bracket_rate (if status = SINGLE then single_brackets else married_brackets) inc
   \<and> (inc \<le> inc' \<longrightarrow> getFederalTaxRate inc status \<le> getFederalTaxRate inc' status)
   \<and> map snd single_brackets @ [0.37] = [0.10, 0.12, 0.22, 0.24, 0.32, 0.35, 0.37]
   \<and> map snd married_brackets = map snd single_brackets
   \<and> sorted (map fst single_brackets) \<and> sorted (map fst married_brackets)
   \<and> list_all2 (\<lambda>s m. fst s \<le> fst m) single_brackets married_brackets"
  using getFederalTaxRate_mono [of inc inc' status]
  by (simp add: getFederalTaxRate_table single_brackets_def married_brackets_def)

theorem federal_rate_step_function_witness:
  "Fin 50000 \<le> Fin 100000
   \<and> getFederalTaxRate (Fin 50000) ''single'' = Fin 0.22
   \<and> getFederalTaxRate (Fin 100000) ''single'' = Fin 0.24
   \<and> getFederalTaxRate (Fin 50000) ''single'' \<le> getFederalTaxRate (Fin 100000) ''single''"
  using federal_rate_step_function [of "Fin 50000" "''single''" "Fin 100000"]
  by (simp add: getFederalTaxRate_def SINGLE_def single_brackets_def)

text \<open>
  Claim C9. For every filing status other than \<open>'single'\<close>, the empty string and
  unknown strings among them, the lookup goes through the married-filing-jointly table;
  and for every income (finite or not) and every filing status the lookup returns one
  of the seven rates.
\<close>

theorem federal_rate_other_status:
  "(status \<noteq> SINGLE \<longrightarrow>
      getFederalTaxRate inc status = bracket_rate married_brackets inc
      \<and> getFederalTaxRate inc status = getFederalTaxRate inc MARRIED_FILING_JOINTLY)
   \<and> getFederalTaxRate inc status
       \<in> {Fin 0.10, Fin 0.12, Fin 0.22, Fin 0.24, Fin 0.32, Fin 0.35, Fin 0.37}"
  by (simp add: getFederalTaxRate_def married_brackets_def SINGLE_def
      MARRIED_FILING_JOINTLY_def)

theorem federal_rate_other_status_witness:
  "'''' \<noteq> SINGLE \<and> getFederalTaxRate (Fin 50000) '''' = Fin 0.12
   \<and> getFederalTaxRate (Fin 50000) '''' = getFederalTaxRate (Fin 50000) MARRIED_FILING_JOINTLY
   \<and> getFederalTaxRate NaN ''head_of_household'' = Fin 0.37"
  using federal_rate_other_status [of "''''" "Fin 50000"]
  by (simp add: getFederalTaxRate_def SINGLE_def MARRIED_FILING_JOINTLY_def)

section \<open>The result record\<close>

text \<open>
  Claim C3. The net cost of every result is the sum of the five annual costs minus the
  sum of the three annual benefits, each as shown in the breakdown, with nothing
  rounded in between.
\<close>

theorem net_cost_is_costs_minus_benefits:
  "totalNetCost (calculateHomeNetCost toStr ps) =
     (annualMortgagePayment (breakdown (calculateHomeNetCost toStr ps))
      + propertyTax (breakdown (calculateHomeNetCost toStr ps))
      + insurance (breakdown (calculateHomeNetCost toStr ps))
      + maintenance (breakdown (calculateHomeNetCost toStr ps))
      + totalOpportunityCost (breakdown (calculateHomeNetCost toStr ps)))
     - (homeAppreciationValue (breakdown (calculateHomeNetCost toStr ps))
        + mortgageInterestTaxSavings (breakdown (calculateHomeNetCost toStr ps))
        + propertyTaxTaxSavings (breakdown (calculateHomeNetCost toStr ps)))"
  by (simp add: calculateHomeNetCost_def Let_def)

text \<open>
  Claim C6. The monthly payment is a twelfth of mortgage payment, property tax,
  insurance and maintenance (the opportunity cost is left out), the front-end ratio is
  the monthly payment divided by a twelfth of the income, and the result is marked
  affordable exactly when the front-end ratio is at most 0.28.
\<close>

theorem affordability_rule:
  "monthlyPayment (calculateHomeNetCost toStr ps) =
     (annualMortgagePayment (breakdown (calculateHomeNetCost toStr ps))
      + propertyTax (breakdown (calculateHomeNetCost toStr ps))
      + insurance (breakdown (calculateHomeNetCost toStr ps))
      + maintenance (breakdown (calculateHomeNetCost toStr ps))) / Fin 12
   \<and> frontEndRatio (calculateHomeNetCost toStr ps) =
       monthlyPayment (calculateHomeNetCost toStr ps) / (userIncome ps / Fin 12)
   \<and> isAffordable (calculateHomeNetCost toStr ps) =
       (frontEndRatio (calculateHomeNetCost toStr ps) \<le> Fin 0.28)"
  by (simp add: calculateHomeNetCost_def Let_def)

text \<open>
  Claim C10. The breakdown of every result is consistent: the total opportunity cost
  is the sum of its two parts, the total upfront cost is down payment plus closing
  costs, the annual mortgage payment is twelve monthly payments, and the state rate is
  0, so that the total tax rate is the federal rate.
\<close>

theorem breakdown_consistent:
  "totalOpportunityCost (breakdown (calculateHomeNetCost toStr ps)) =
     opportunityCostUpfront (breakdown (calculateHomeNetCost toStr ps))
     + opportunityCostMortgagePayments (breakdown (calculateHomeNetCost toStr ps))
   \<and> totalUpfrontCosts (breakdown (calculateHomeNetCost toStr ps)) =
       downPayment (breakdown (calculateHomeNetCost toStr ps))
       + closingCosts (breakdown (calculateHomeNetCost toStr ps))
   \<and> annualMortgagePayment (breakdown (calculateHomeNetCost toStr ps)) =
       Fin 12 * monthlyMortgagePayment (breakdown (calculateHomeNetCost toStr ps))
   \<and> stateTaxRate (breakdown (calculateHomeNetCost toStr ps)) = Fin 0
   \<and> totalTaxRate (calculateHomeNetCost toStr ps) =
       federalTaxRate (breakdown (calculateHomeNetCost toStr ps))"
  by (simp add: calculateHomeNetCost_def Let_def getTaxRates_def num_add_zero
      num_mult_commute [of _ "Fin 12"])

section \<open>Percentages and defaults\<close>

text \<open>
  Claim C1 asks that an omitted property tax rate and maintenance rate count as 1% of
  the house price, an omitted down payment as 20%, so that a house of 500000 has a
  property tax of 5000 and a maintenance of 5000. The function computes, for the
  parameter object that leaves every optional property out: property tax 50 and
  maintenance 50 (the defaults 0.01 are divided by 100 once more), a down payment of
  1000 (the default 0.20 divided by 100), and it warns about its own default down
  payment. Insurance (2500) and closing costs (15000) are as the claim says, because
  their defaults are not divided.
\<close>

theorem defaults_example_values:
  "propertyTax (breakdown (calculateHomeNetCost toStr defaults_example)) = Fin 50
   \<and> maintenance (breakdown (calculateHomeNetCost toStr defaults_example)) = Fin 50
   \<and> insurance (breakdown (calculateHomeNetCost toStr defaults_example)) = Fin 2500
   \<and> downPayment (breakdown (calculateHomeNetCost toStr defaults_example)) = Fin 1000
   \<and> closingCosts (breakdown (calculateHomeNetCost toStr defaults_example)) = Fin 15000
   \<and> opportunityCostUpfront (breakdown (calculateHomeNetCost toStr defaults_example)) = Fin 12.8
   \<and> warnings (calculateHomeNetCost toStr defaults_example) =
       [''Down payment percentage seems unusual ('' @ toStr (Fin 0.20) @ ''%)'']"
  by (simp add: calculateHomeNetCost_def Let_def getTaxRates_def defaults_example_def
      validateInputs_def)

text \<open>
  Claim C2 asks that every percentage is divided by 100 before use, so that insurance
  is house price times \<open>insurancePercent / 100\<close> and closing costs are house price
  times \<open>closingCostsPercent / 100\<close>. The function computes, for a house of 500000
  with \<open>insurancePercent = 0.5\<close> and \<open>closingCostsPercent = 3\<close>: insurance 250000
  and closing costs 1500000, a hundred times the 2500 and 15000 of the claim, while the
  down payment percentage, the property tax rate and the maintenance rate of the same
  object are divided by 100.
\<close>

theorem percent_example_values:
  "insurance (breakdown (calculateHomeNetCost toStr percent_example)) = Fin 250000
   \<and> housePrice percent_example * (Fin 0.5 / Fin 100) = Fin 2500
   \<and> insurance (breakdown (calculateHomeNetCost toStr percent_example))
       \<noteq> housePrice percent_example * (Fin 0.5 / Fin 100)
   \<and> closingCosts (breakdown (calculateHomeNetCost toStr percent_example)) = Fin 1500000
   \<and> housePrice percent_example * (Fin 3 / Fin 100) = Fin 15000
   \<and> closingCosts (breakdown (calculateHomeNetCost toStr percent_example))
       \<noteq> housePrice percent_example * (Fin 3 / Fin 100)
   \<and> downPayment (breakdown (calculateHomeNetCost toStr percent_example)) = Fin 100000
   \<and> propertyTax (breakdown (calculateHomeNetCost toStr percent_example)) = Fin 5000
   \<and> maintenance (breakdown (calculateHomeNetCost toStr percent_example)) = Fin 5000"
  by (simp add: calculateHomeNetCost_def Let_def getTaxRates_def percent_example_def)

section \<open>The monthly mortgage payment\<close>

lemma pow_101_12:
  "((101::rat) / 100) ^ 12 = 1126825030131969720661201 / 1000000000000000000000000"
  by (simp add: power_divide)

text \<open>
  Claim C4, as amended. When the monthly rate, the annual rate divided by 12, is
  exactly zero, the payment is the loan amount divided by the number of payments and
  the amortisation formula, whose denominator is zero there, is not evaluated; for a
  finite loan amount and a term of at least one year this payment is a finite number,
  and for a loan amount that is not negative it lies between zero and the loan amount.
  When the monthly rate is not zero, the payment is the amortisation formula
  \<open>loan \<times> (r \<times> (1 + r)\<^sup>n) / ((1 + r)\<^sup>n - 1)\<close> at the monthly rate \<open>r\<close> and
  the number of payments \<open>n\<close>. An omitted term is a term of 30 years. Nothing is said
  about the product of the payment and the number of payments.
\<close>

theorem mortgage_payment_cases:
  "(annualRate / Fin 12 = Fin 0 \<longrightarrow>
      calculateMonthlyMortgagePayment loan annualRate (Some years) =
        loan / Fin (of_nat (years * 12)))
   \<and> (0 < years \<longrightarrow>
        calculateMonthlyMortgagePayment (Fin l) (Fin 0) (Some years) \<noteq> PInf
        \<and> calculateMonthlyMortgagePayment (Fin l) (Fin 0) (Some years) \<noteq> NInf
        \<and> calculateMonthlyMortgagePayment (Fin l) (Fin 0) (Some years) \<noteq> NaN)
   \<and> (0 < years \<and> 0 \<le> l \<longrightarrow>
        Fin 0 \<le> calculateMonthlyMortgagePayment (Fin l) (Fin 0) (Some years)
        \<and> calculateMonthlyMortgagePayment (Fin l) (Fin 0) (Some years) \<le> Fin l)
   \<and> (annualRate / Fin 12 \<noteq> Fin 0 \<longrightarrow>
        calculateMonthlyMortgagePayment loan annualRate (Some years) =
          loan * (annualRate / Fin 12 * Math_pow (Fin 1 + annualRate / Fin 12) (years * 12))
          / (Math_pow (Fin 1 + annualRate / Fin 12) (years * 12) - Fin 1))
   \<and> calculateMonthlyMortgagePayment loan annualRate None =
       calculateMonthlyMortgagePayment loan annualRate (Some 30)"
proof -
  have bound: "l / of_nat (years * 12) \<le> l" if "0 < years" "0 \<le> l"
  proof -
    have "(1::rat) \<le> of_nat (years * 12)" using that(1) by simp
    then have "l / of_nat (years * 12) \<le> l / 1"
      using that(2) by (intro divide_left_mono) simp_all
    then show ?thesis by simp
  qed
  show ?thesis
    using bound by (simp add: calculateMonthlyMortgagePayment_def Let_def)
qed

theorem mortgage_payment_cases_witness:
  "Fin 0 / Fin 12 = Fin 0
   \<and> Math_pow (Fin 1 + Fin 0 / Fin 12) (1 * 12) - Fin 1 = Fin 0
   \<and> calculateMonthlyMortgagePayment (Fin 1200) (Fin 0) (Some 1) = Fin 100
   \<and> calculateMonthlyMortgagePayment (Fin 1200) (Fin 0) (Some 1) \<le> Fin 1200
   \<and> Fin 0.12 / Fin 12 \<noteq> Fin 0
   \<and> calculateMonthlyMortgagePayment (Fin 1200) (Fin 0.12) (Some 1) =
       Fin 1200 * (Fin 0.01 * Math_pow (Fin 1.01) 12) / (Math_pow (Fin 1.01) 12 - Fin 1)"
  using mortgage_payment_cases [of "Fin 0" "Fin 1200" 1 1200]
    mortgage_payment_cases [of "Fin 0.12" "Fin 1200" 1 1200]
  by (simp add: Math_pow_Fin num_minus_Fin)

text \<open>
  Claim C4 as stated fails twice. A loan of 1200 over one year at 12% a year is paid
  back with twelve payments that add up to more than 1279, not to the 1200 borrowed.
  And with a term of zero years and a rate of zero the payment is 1200 / 0, which is
  \<open>Infinity\<close>, and \<open>Infinity \<times> 0\<close> is \<open>NaN\<close>, not the loan amount.
\<close>

theorem total_paid_counterexample:
  "Fin 1279 < calculateMonthlyMortgagePayment (Fin 1200) (Fin 0.12) (Some 1) * Fin 12
   \<and> calculateMonthlyMortgagePayment (Fin 1200) (Fin 0) (Some 0) = PInf
   \<and> calculateMonthlyMortgagePayment (Fin 1200) (Fin 0) (Some 0) * Fin (of_nat (0 * 12)) = NaN
   \<and> calculateMonthlyMortgagePayment (Fin 1200) (Fin 0) (Some 0) * Fin (of_nat (0 * 12))
        \<noteq> Fin 1200"
  by (simp add: calculateMonthlyMortgagePayment_def Let_def Math_pow_Fin num_minus_Fin
      pow_101_12)

section \<open>Validation\<close>








section \<open>The two capped deductions\<close>

lemma propertyTaxDeduction_Fin:
  "propertyTaxDeduction_at (Fin h) (Fin t) = Fin (min (h * (t / 100)) 10000)"
  by (simp add: propertyTaxDeduction_at_def Math_min_Fin del: Math_min.simps)

lemma propertyTaxDeduction_mono:
  assumes "0 \<le> t" "h \<le> h'"
  shows "propertyTaxDeduction_at (Fin h) (Fin t) \<le> propertyTaxDeduction_at (Fin h') (Fin t)"
proof -
  have "h * (t / 100) \<le> h' * (t / 100)"
    using assms by (intro mult_right_mono) simp_all
  then have "min (h * (t / 100)) 10000 \<le> min (h' * (t / 100)) 10000"
    by (intro min.mono) simp_all
  then show ?thesis
    by (simp only: propertyTaxDeduction_Fin less_eq_num.simps)
qed

lemma propertyTaxDeduction_flat:
  assumes "0 \<le> t" "h \<le> h'" "Fin 10000 \<le> Fin h * (Fin t / Fin 100)"
  shows "propertyTaxDeduction_at (Fin h) (Fin t) = Fin 10000"
    and "propertyTaxDeduction_at (Fin h') (Fin t) = Fin 10000"
proof -
  have c: "10000 \<le> h * (t / 100)" using assms(3) by simp
  have "h * (t / 100) \<le> h' * (t / 100)"
    using assms by (intro mult_right_mono) simp_all
  then have "10000 \<le> h' * (t / 100)" using c by linarith
  then have "min (h' * (t / 100)) 10000 = 10000" "min (h * (t / 100)) 10000 = 10000"
    using c by (simp_all add: min_def)
  then show "propertyTaxDeduction_at (Fin h) (Fin t) = Fin 10000"
    and "propertyTaxDeduction_at (Fin h') (Fin t) = Fin 10000"
    by (simp_all only: propertyTaxDeduction_Fin)
qed

lemma annualMortgageInterest_Fin:
  "annualMortgageInterest_at (Fin l) (Fin m) = Fin (min l 750000 * (m / 100))"
  by (simp add: annualMortgageInterest_at_def Math_min_Fin del: Math_min.simps)

lemma annualMortgageInterest_PInf:
  "annualMortgageInterest_at PInf (Fin m) = Fin (750000 * (m / 100))"
  by (simp add: annualMortgageInterest_at_def)

lemma annualMortgageInterest_mono:
  assumes "0 \<le> m" "Fin l \<le> loan'"
  shows "annualMortgageInterest_at (Fin l) (Fin m) \<le> annualMortgageInterest_at loan' (Fin m)"
proof (cases loan')
  case (Fin l')
  then have "min l 750000 \<le> min l' 750000"
    using assms(2) by (intro min.mono) simp_all
  then have "min l 750000 * (m / 100) \<le> min l' 750000 * (m / 100)"
    using assms(1) by (intro mult_right_mono) simp_all
  then show ?thesis
    by (simp only: Fin annualMortgageInterest_Fin less_eq_num.simps)
next
  case PInf
  have "min l 750000 * (m / 100) \<le> 750000 * (m / 100)"
    using assms(1) by (intro mult_right_mono) simp_all
  then show ?thesis
    by (simp only: PInf annualMortgageInterest_PInf annualMortgageInterest_Fin
        less_eq_num.simps)
next
  case NInf
  then show ?thesis using assms(2) by simp
next
  case NaN
  then show ?thesis using assms(2) by simp
qed

lemma annualMortgageInterest_flat:
  assumes "Fin l \<le> loan'" "750000 \<le> l"
  shows "annualMortgageInterest_at (Fin l) (Fin m) = Fin 750000 * (Fin m / Fin 100)"
    and "annualMortgageInterest_at loan' (Fin m) = Fin 750000 * (Fin m / Fin 100)"
  using assms
  by (cases loan';
      simp add: annualMortgageInterest_Fin annualMortgageInterest_PInf min_def)+

lemma annualMortgageInterest_le_cap:
  assumes "0 \<le> m"
  shows "annualMortgageInterest_at (Fin l) (Fin m) \<le> Fin 750000 * (Fin m / Fin 100)"
proof -
  have "min l 750000 * (m / 100) \<le> 750000 * (m / 100)"
    using assms by (intro mult_right_mono) simp_all
  then show ?thesis by (simp add: annualMortgageInterest_Fin)
qed

lemma tax_savings_of_result:
  "propertyTaxRate ps = Some ptr \<Longrightarrow>
     propertyTaxTaxSavings (breakdown (calculateHomeNetCost toStr ps)) =
       propertyTaxDeduction_at (housePrice ps) ptr
       * totalTaxRate (calculateHomeNetCost toStr ps)"
  "mortgageInterestTaxSavings (breakdown (calculateHomeNetCost toStr ps)) =
     annualMortgageInterest_at
       (housePrice ps - downPayment (breakdown (calculateHomeNetCost toStr ps)))
       (mortgageRate ps)
     * totalTaxRate (calculateHomeNetCost toStr ps)"
  by (simp_all add: calculateHomeNetCost_def Let_def getTaxRates_def propertyTaxDeduction_at_def
      annualMortgageInterest_at_def)

text \<open>
  Claim C8, as amended. For finite house prices and a finite property tax rate that is
  not negative, the property tax deduction does not decrease when the house price
  grows, never exceeds 10000, and once the property tax reaches 10000 it stays at 10000
  for every higher price. For a finite mortgage rate that is not negative, the mortgage
  interest deduction does not decrease when the loan amount grows from a finite loan
  amount, never exceeds 750000 times the rate, and once the loan amount reaches 750000
  it stays at that cap for every higher loan amount. The tax savings of the result are
  these two deductions, at the house price and the given property tax rate and at the
  loan amount (house price minus down payment), times the total tax rate.
\<close>

theorem deductions_monotone:
  assumes "0 \<le> t" and "0 \<le> m" and "h \<le> h'" and "Fin l \<le> loan'"
  shows "propertyTaxDeduction_at (Fin h) (Fin t) \<le> propertyTaxDeduction_at (Fin h') (Fin t)
     \<and> propertyTaxDeduction_at (Fin h) (Fin t) \<le> Fin 10000
     \<and> (Fin 10000 \<le> Fin h * (Fin t / Fin 100) \<longrightarrow>
          propertyTaxDeduction_at (Fin h) (Fin t) = Fin 10000
          \<and> propertyTaxDeduction_at (Fin h') (Fin t) = Fin 10000)
     \<and> annualMortgageInterest_at (Fin l) (Fin m) \<le> annualMortgageInterest_at loan' (Fin m)
     \<and> annualMortgageInterest_at (Fin l) (Fin m) \<le> Fin 750000 * (Fin m / Fin 100)
     \<and> (Fin 750000 \<le> Fin l \<longrightarrow>
          annualMortgageInterest_at (Fin l) (Fin m) = Fin 750000 * (Fin m / Fin 100)
          \<and> annualMortgageInterest_at loan' (Fin m) = Fin 750000 * (Fin m / Fin 100))
     \<and> (propertyTaxRate ps = Some ptr \<longrightarrow>
          propertyTaxTaxSavings (breakdown (calculateHomeNetCost toStr ps)) =
            propertyTaxDeduction_at (housePrice ps) ptr
            * totalTaxRate (calculateHomeNetCost toStr ps))
     \<and> mortgageInterestTaxSavings (breakdown (calculateHomeNetCost toStr ps)) =
         annualMortgageInterest_at
           (housePrice ps - downPayment (breakdown (calculateHomeNetCost toStr ps)))
           (mortgageRate ps)
         * totalTaxRate (calculateHomeNetCost toStr ps)"
proof (intro conjI impI)
  show "propertyTaxDeduction_at (Fin h) (Fin t) \<le> propertyTaxDeduction_at (Fin h') (Fin t)"
    using assms by (intro propertyTaxDeduction_mono)
  show "propertyTaxDeduction_at (Fin h) (Fin t) \<le> Fin 10000"
    by (simp add: propertyTaxDeduction_Fin)
  show "annualMortgageInterest_at (Fin l) (Fin m) \<le> annualMortgageInterest_at loan' (Fin m)"
    using assms by (intro annualMortgageInterest_mono)
  show "annualMortgageInterest_at (Fin l) (Fin m) \<le> Fin 750000 * (Fin m / Fin 100)"
    using assms by (intro annualMortgageInterest_le_cap)
next
  assume c: "Fin 10000 \<le> Fin h * (Fin t / Fin 100)"
  show "propertyTaxDeduction_at (Fin h) (Fin t) = Fin 10000"
    using assms c by (intro propertyTaxDeduction_flat(1))
  show "propertyTaxDeduction_at (Fin h') (Fin t) = Fin 10000"
    using assms c by (intro propertyTaxDeduction_flat(2))
next
  assume "Fin 750000 \<le> Fin l"
  then have c: "750000 \<le> l" by simp
  show "annualMortgageInterest_at (Fin l) (Fin m) = Fin 750000 * (Fin m / Fin 100)"
    using assms(4) c by (rule annualMortgageInterest_flat(1))
  show "annualMortgageInterest_at loan' (Fin m) = Fin 750000 * (Fin m / Fin 100)"
    using assms(4) c by (rule annualMortgageInterest_flat(2))
next
  assume "propertyTaxRate ps = Some ptr"
  then show "propertyTaxTaxSavings (breakdown (calculateHomeNetCost toStr ps)) =
      propertyTaxDeduction_at (housePrice ps) ptr * totalTaxRate (calculateHomeNetCost toStr ps)"
    by (rule tax_savings_of_result(1))
qed (rule tax_savings_of_result(2))

theorem deductions_monotone_witness:
  "(0::rat) \<le> 1 \<and> (0::rat) \<le> 6 \<and> (500000::rat) \<le> 1200000 \<and> Fin 400000 \<le> Fin 960000
   \<and> propertyTaxDeduction_at (Fin 500000) (Fin 1) = Fin 5000
   \<and> propertyTaxDeduction_at (Fin 1200000) (Fin 1) = Fin 10000
   \<and> propertyTaxDeduction_at (Fin 500000) (Fin 1) \<le> propertyTaxDeduction_at (Fin 1200000) (Fin 1)
   \<and> annualMortgageInterest_at (Fin 400000) (Fin 6) = Fin 24000
   \<and> annualMortgageInterest_at (Fin 960000) (Fin 6) = Fin 45000
   \<and> annualMortgageInterest_at (Fin 400000) (Fin 6)
       \<le> annualMortgageInterest_at (Fin 960000) (Fin 6)
   \<and> propertyTaxRate percent_example = Some (Fin 1)
   \<and> propertyTaxTaxSavings (breakdown (calculateHomeNetCost (\<lambda>x. []) percent_example)) =
       propertyTaxDeduction_at (Fin 500000) (Fin 1)
       * totalTaxRate (calculateHomeNetCost (\<lambda>x. []) percent_example)"
  using deductions_monotone [of 1 6 500000 1200000 400000 "Fin 960000" percent_example "Fin 1"
      "\<lambda>x. []"]
  by (simp add: propertyTaxDeduction_Fin annualMortgageInterest_Fin percent_example_def)

text \<open>
  Claim C8 as stated, for all values of the other inputs, fails in each way that the
  amended claim excludes. At a property tax rate of -1% the deduction falls from -1000
  to -2000 when the house price rises from 100000 to 200000. At a mortgage rate of -1%
  the interest deduction falls from -800 to -1600 when the loan amount doubles. At a
  down payment of 150% the loan amount itself falls when the house price rises, from
  -50000 to -100000, and the interest deduction with it. And where an input is not
  finite a deduction is \<open>NaN\<close>, which compares with nothing: an infinite house price
  of either sign at a rate of zero, an infinite rate at a house price or loan amount of
  zero, a loan amount of minus infinity at a rate of zero.
\<close>

theorem deductions_counterexample:
  "Fin 100000 \<le> Fin 200000
   \<and> propertyTaxDeduction_at (Fin 100000) (Fin (- 1)) = Fin (- 1000)
   \<and> propertyTaxDeduction_at (Fin 200000) (Fin (- 1)) = Fin (- 2000)
   \<and> \<not> propertyTaxDeduction_at (Fin 100000) (Fin (- 1))
         \<le> propertyTaxDeduction_at (Fin 200000) (Fin (- 1))
   \<and> Fin 80000 \<le> Fin 160000
   \<and> annualMortgageInterest_at (Fin 80000) (Fin (- 1)) = Fin (- 800)
   \<and> annualMortgageInterest_at (Fin 160000) (Fin (- 1)) = Fin (- 1600)
   \<and> \<not> annualMortgageInterest_at (Fin 80000) (Fin (- 1))
         \<le> annualMortgageInterest_at (Fin 160000) (Fin (- 1))
   \<and> Fin 100000 - Fin 100000 * (Fin 150 / Fin 100) = Fin (- 50000)
   \<and> Fin 200000 - Fin 200000 * (Fin 150 / Fin 100) = Fin (- 100000)
   \<and> annualMortgageInterest_at (Fin (- 50000)) (Fin 6) = Fin (- 3000)
   \<and> annualMortgageInterest_at (Fin (- 100000)) (Fin 6) = Fin (- 6000)
   \<and> \<not> annualMortgageInterest_at (Fin (- 50000)) (Fin 6)
         \<le> annualMortgageInterest_at (Fin (- 100000)) (Fin 6)
   \<and> Fin 1 \<le> PInf
   \<and> propertyTaxDeduction_at PInf (Fin 0) = NaN
   \<and> \<not> propertyTaxDeduction_at (Fin 1) (Fin 0) \<le> propertyTaxDeduction_at PInf (Fin 0)
   \<and> NInf \<le> Fin 1
   \<and> propertyTaxDeduction_at NInf (Fin 0) = NaN
   \<and> \<not> propertyTaxDeduction_at NInf (Fin 0) \<le> propertyTaxDeduction_at (Fin 1) (Fin 0)
   \<and> propertyTaxDeduction_at (Fin 0) PInf = NaN
   \<and> \<not> propertyTaxDeduction_at (Fin 0) PInf \<le> propertyTaxDeduction_at (Fin 1) PInf
   \<and> NInf \<le> Fin 0
   \<and> annualMortgageInterest_at NInf (Fin 0) = NaN
   \<and> \<not> annualMortgageInterest_at NInf (Fin 0) \<le> annualMortgageInterest_at (Fin 0) (Fin 0)
   \<and> annualMortgageInterest_at (Fin 0) PInf = NaN
   \<and> \<not> annualMortgageInterest_at (Fin 0) PInf \<le> annualMortgageInterest_at (Fin 1) PInf"
  by (simp add: propertyTaxDeduction_at_def annualMortgageInterest_at_def num_minus_Fin)

end
